theory Spec2Isabelle
  imports Main "HOL-Library.Sublist"
begin

section \<open>Permission artefact processing (src/art\_proc.c)\<close>

text \<open>
  A shallow embedding of \<^verbatim>\<open>art_proc.c\<close>. C strings are lists of bytes, a pointer
  that may be \<^verbatim>\<open>NULL\<close> is an option, a pointer into a buffer is the list of bytes from
  that address to the end of the buffer together with offsets, and every operation whose
  behaviour C leaves undefined (a read outside a buffer, a write past the end of an array,
  dereferencing or offsetting a null pointer) is a value of type \<open>fault\<close>.
\<close>

subsection \<open>Faults, bytes and fixed-width integers\<close>

datatype fault = MemFault | BufferOverflow | NullDeref | NullArith

abbreviation NUL :: char where
  "NUL \<equiv> CHR 0x00"

text \<open>Conversion of an integer to \<^verbatim>\<open>int8_t\<close> and \<^verbatim>\<open>int16_t\<close> (two's complement wrap).\<close>

definition i8 :: "int \<Rightarrow> int" where
  "i8 x = (x + 128) mod 256 - 128"

definition i16 :: "int \<Rightarrow> int" where
  "i16 x = (x + 32768) mod 65536 - 32768"

text \<open>\<^verbatim>\<open>p[i]\<close> for a pointer \<open>p\<close> into a buffer: the bytes from \<open>p\<close> to the buffer's end.\<close>

definition rd :: "string \<Rightarrow> nat \<Rightarrow> char option" where
  "rd p i = (if i < length p then Some (p ! i) else None)"

text \<open>The \<open>n\<close> bytes at \<^verbatim>\<open>&p[i]\<close>, as \<^verbatim>\<open>update_sha1\<close> and \<^verbatim>\<open>memcpy\<close> read them.\<close>

definition rd_n :: "string \<Rightarrow> nat \<Rightarrow> nat \<Rightarrow> string option" where
  "rd_n p i n = (if i + n \<le> length p then Some (take n (drop i p)) else None)"

text \<open>The C string held in a buffer: the bytes before the first terminator, if there is one.\<close>

definition cstr :: "string \<Rightarrow> string option" where
  "cstr block = (if NUL \<in> set block then Some (takeWhile (\<lambda>c. c \<noteq> NUL) block) else None)"

text \<open>\<^verbatim>\<open>strstr\<close>: the offset of the first occurrence of \<open>pat\<close>, \<open>None\<close> for \<^verbatim>\<open>NULL\<close>.\<close>

fun strstr :: "string \<Rightarrow> string \<Rightarrow> nat option" where
  "strstr [] pat = (if pat = [] then Some 0 else None)"
| "strstr (c # cs) pat =
     (if prefix pat (c # cs) then Some 0 else map_option Suc (strstr cs pat))"

subsection \<open>The canonicalisation scan (lines 125-155 and 192-222)\<close>

text \<open>
  \<^verbatim>\<open>char last_empty_element[20]\<close>: the cells \<open>0..19\<close> of a function from indices to
  bytes. The array is not initialised, so its first content is a parameter of the scan.
\<close>

type_synonym name_buf = "nat \<Rightarrow> char"

definition wr :: "name_buf \<Rightarrow> nat \<Rightarrow> char \<Rightarrow> name_buf option" where
  "wr buf i c = (if i < 20 then Some (buf(i := c)) else None)"

text \<open>\<^verbatim>\<open>strlen(last_empty_element)\<close>: the first terminator among the 20 cells.\<close>

definition buf_strlen :: "name_buf \<Rightarrow> nat option" where
  "buf_strlen buf = List.find (\<lambda>i. buf i = NUL) [0..<20]"

text \<open>
  The inner loop (lines 128-138, 195-205). \<open>s\<close> is the memory from the start of the
  range, \<open>len\<close> the length of the range, \<open>cp\<close> is \<^verbatim>\<open>curr_ptr\<close>, \<open>cl\<close> is
  \<^verbatim>\<open>curr_length\<close>. The range is shorter than \<open>2^15\<close> bytes, so the 16-bit counters
  do not wrap.
\<close>

function scan_name :: "string \<Rightarrow> nat \<Rightarrow> nat \<Rightarrow> nat \<Rightarrow> name_buf \<Rightarrow> fault + (nat \<times> name_buf)" where
  "scan_name s len cp cl lee =
     (if cp + cl < len then
        (case rd s (cp + cl) of
           None \<Rightarrow> Inl MemFault
         | Some c \<Rightarrow>
             if c = CHR '' '' then
               (case wr lee (cl - 1) NUL of
                  None \<Rightarrow> Inl BufferOverflow
                | Some lee' \<Rightarrow> Inr (cl, lee'))
             else if c = CHR ''>'' then
               (case wr lee 0 NUL of
                  None \<Rightarrow> Inl BufferOverflow
                | Some lee' \<Rightarrow> Inr (cl, lee'))
             else
               (case wr lee (cl - 1) c of
                  None \<Rightarrow> Inl BufferOverflow
                | Some lee' \<Rightarrow> scan_name s len cp (cl + 1) lee'))
      else Inr (cl, lee))"
  by pat_completeness auto
termination
  by (relation "measure (\<lambda>(s, len, cp, cl, lee). len - (cp + cl))") auto

declare scan_name.simps [simp del]

text \<open>
  The outer loop (lines 125-155, 192-222). \<open>sha\<close> is the sequence of bytes given to
  \<^verbatim>\<open>update_sha1\<close> since the last \<^verbatim>\<open>reset_sha1\<close>; the result is the name buffer
  and that sequence when the loop ends.
\<close>

function canon_loop :: "string \<Rightarrow> nat \<Rightarrow> nat \<Rightarrow> name_buf \<Rightarrow> string \<Rightarrow> fault + (name_buf \<times> string)" where
  "canon_loop s len cp lee sha =
     (if cp < len then
        (case rd s cp of
           None \<Rightarrow> Inl MemFault
         | Some c \<Rightarrow>
             (case (if c = CHR ''<'' then scan_name s len cp 1 lee else Inr (1, lee)) of
                Inl f \<Rightarrow> Inl f
              | Inr (cl, lee1) \<Rightarrow>
                  (case buf_strlen lee1 of
                     None \<Rightarrow> Inl MemFault
                   | Some n \<Rightarrow>
                       if n \<noteq> 0 \<and> c = CHR ''/'' then
                         (case rd s (cp + 1) of
                            None \<Rightarrow> Inl MemFault
                          | Some d \<Rightarrow>
                              if d = CHR ''>'' then
                                canon_loop s len (cp + cl) (lee1(0 := NUL))
                                  (sha @ ''></'' @ map lee1 [0..<n])
                              else
                                (case rd_n s cp cl of
                                   None \<Rightarrow> Inl MemFault
                                 | Some bs \<Rightarrow> canon_loop s len (cp + cl) lee1 (sha @ bs)))
                       else
                         (case rd_n s cp cl of
                            None \<Rightarrow> Inl MemFault
                          | Some bs \<Rightarrow> canon_loop s len (cp + cl) lee1 (sha @ bs)))))
      else Inr (lee, sha))"
  by pat_completeness auto
termination
proof -
  have ge: "cl \<le> cl'" if "scan_name s len cp cl lee = Inr (cl', lee')"
    for s len cp cl lee cl' lee'
    using that
  proof (induction s len cp cl lee rule: scan_name.induct)
    case (1 s len cp cl lee)
    show ?case
      using "1.prems" "1.IH"
      by (subst (asm) scan_name.simps) (fastforce split: if_splits option.splits)
  qed
  show ?thesis
    by (relation "measure (\<lambda>(s, len, cp, lee, sha). len - cp)")
      (auto split: if_splits dest: ge)
qed

declare canon_loop.simps [simp del]

text \<open>The bytes a scan result gave to the digest.\<close>

definition fed :: "fault + (name_buf \<times> string) \<Rightarrow> fault + string" where
  "fed r = map_sum id snd r"

subsection \<open>Timestamps (lines 336-375)\<close>

text \<open>The fields of \<^verbatim>\<open>struct tm\<close>.\<close>

record tm =
  tm_sec :: int
  tm_min :: int
  tm_hour :: int
  tm_mday :: int
  tm_mon :: int
  tm_year :: int
  tm_wday :: int
  tm_yday :: int
  tm_isdst :: int

text \<open>
  \<^verbatim>\<open>atoi\<close> of the C library: white space, an optional sign, then decimal digits up to
  the first other byte. The calls below pass at most four bytes, so the value fits an
  \<^verbatim>\<open>int\<close>.
\<close>

definition isspace :: "char \<Rightarrow> bool" where
  "isspace c = (c \<in> set [CHR '' '', CHR 0x09, CHR 0x0A, CHR 0x0B, CHR 0x0C, CHR 0x0D])"

definition isdigit :: "char \<Rightarrow> bool" where
  "isdigit c = (48 \<le> (of_char c :: nat) \<and> (of_char c :: nat) \<le> 57)"

fun digits_val :: "string \<Rightarrow> int \<Rightarrow> int" where
  "digits_val [] acc = acc"
| "digits_val (c # cs) acc =
     (if isdigit c then digits_val cs (acc * 10 + (of_char c - 48)) else acc)"

definition atoi :: "string \<Rightarrow> int" where
  "atoi s =
     (case dropWhile isspace s of
        [] \<Rightarrow> 0
      | c # cs \<Rightarrow>
          if c = CHR ''-'' then - digits_val cs 0
          else if c = CHR ''+'' then digits_val cs 0
          else digits_val (c # cs) 0)"

text \<open>
  \<^verbatim>\<open>npnt_ist_date_time_to_unix_time\<close>. \<open>dt_string\<close> is \<open>None\<close> for a null pointer,
  and so is \<open>date_time\<close>; the result is the returned value and the structure
  \<open>date_time\<close> points to.
\<close>

definition npnt_ist_date_time_to_unix_time ::
  "string option \<Rightarrow> tm option \<Rightarrow> fault + (int \<times> tm option)" where
  "npnt_ist_date_time_to_unix_time dt_string date_time =
     (case dt_string of
        None \<Rightarrow> Inl NullDeref
      | Some s \<Rightarrow>
          if length s \<noteq> 19 then Inr (- 1, date_time)
          else
            (case date_time of
               None \<Rightarrow> Inr (- 1, None)
             | Some _ \<Rightarrow>
                 Inr (0, Some \<lparr>
                   tm_sec = atoi (take 2 (drop 17 s)),
                   tm_min = atoi (take 2 (drop 14 s)) - 30,
                   tm_hour = atoi (take 2 (drop 11 s)) - 5,
                   tm_mday = atoi (take 2 (drop 8 s)),
                   tm_mon = atoi (take 2 (drop 5 s)),
                   tm_year = atoi (take 4 s) - 1900,
                   tm_wday = 0, tm_yday = 0, tm_isdst = 0 \<rparr>)))"

subsection \<open>The parsed document\<close>

text \<open>
  Modelled from the spec: the tree parser (Mini-XML, \<^verbatim>\<open>mxml.h\<close>), which is not in
  this file. Its tree, built with \<^verbatim>\<open>MXML_OPAQUE_CALLBACK\<close>, has elements with their
  attributes and children, and opaque text; it supports finding the first element of a
  name in document order, an element's name, its opaque text, an attribute by name, the
  first child and the next sibling. A node pointer that is walked along siblings is the
  list of the node and its following siblings. Each accessor accepts a null pointer and
  returns a null pointer where there is nothing to return.
\<close>

datatype mxml_node =
  Element string "(string \<times> string) list" "mxml_node list"
| Opaque string

fun find_descend :: "string \<Rightarrow> mxml_node list \<Rightarrow> mxml_node option" where
  "find_descend name [] = None"
| "find_descend name (Opaque t # rest) = find_descend name rest"
| "find_descend name (Element e attrs children # rest) =
     (if e = name then Some (Element e attrs children)
      else (case find_descend name children of
              Some n \<Rightarrow> Some n
            | None \<Rightarrow> find_descend name rest))"

text \<open>
  \<^verbatim>\<open>mxmlFindElement(top, top, name, NULL, NULL, MXML_DESCEND)\<close>: the first element
  called \<open>name\<close> below the node \<^verbatim>\<open>top\<close>, in document order.
\<close>

definition mxmlFindElement :: "mxml_node option \<Rightarrow> string \<Rightarrow> mxml_node option" where
  "mxmlFindElement top_node name =
     (case top_node of
        Some (Element e attrs children) \<Rightarrow> find_descend name children
      | _ \<Rightarrow> None)"

definition mxmlGetOpaque :: "mxml_node option \<Rightarrow> string option" where
  "mxmlGetOpaque node =
     (case node of
        Some (Opaque t) \<Rightarrow> Some t
      | Some (Element e attrs (Opaque t # rest)) \<Rightarrow> Some t
      | _ \<Rightarrow> None)"

definition mxmlGetElement :: "mxml_node option \<Rightarrow> string option" where
  "mxmlGetElement node =
     (case node of Some (Element e attrs children) \<Rightarrow> Some e | _ \<Rightarrow> None)"

definition mxmlGetFirstChild :: "mxml_node option \<Rightarrow> mxml_node list" where
  "mxmlGetFirstChild node =
     (case node of Some (Element e attrs children) \<Rightarrow> children | _ \<Rightarrow> [])"

definition mxmlElementGetAttr :: "mxml_node option \<Rightarrow> string \<Rightarrow> string option" where
  "mxmlElementGetAttr node name =
     (case node of Some (Element e attrs children) \<Rightarrow> map_of attrs name | _ \<Rightarrow> None)"

subsection \<open>The handle, the status codes and the collaborators\<close>

text \<open>
  \<^verbatim>\<open>npnt_s\<close> is declared in \<^verbatim>\<open>npnt_internal.h\<close>; the fields are those this file
  uses. \<open>'f\<close> is \<^verbatim>\<open>float\<close>.
\<close>

record 'f fence_s =
  nverts :: int
  vertlat :: "'f list option"
  vertlon :: "'f list option"
  maxAltitude :: 'f

record flight_params_s =
  uinNo :: "string option"
  adcNumber :: "string option"
  ficNumber :: "string option"
  flightEndTime :: tm
  flightStartTime :: tm

record 'f npnt_s =
  raw_permart :: "string option"
  raw_permart_len :: nat
  parsed_permart :: "mxml_node option"
  fence :: "'f fence_s"
  params :: flight_params_s

text \<open>
  The status codes of \<^verbatim>\<open>npnt.h\<close>. Their values are not in this file, so they are a
  parameter of every function that returns one.
\<close>

record npnt_codes =
  NPNT_UNALLOC_HANDLE :: int
  NPNT_ALREADY_SET :: int
  NPNT_PARSE_FAILED :: int
  NPNT_INV_ART :: int
  NPNT_INV_SIGN :: int
  NPNT_INV_AUTH :: int
  NPNT_INV_DGST :: int
  NPNT_BAD_FENCE :: int
  NPNT_INV_BAD_ALT :: int
  NPNT_INV_FPARAMS :: int

text \<open>
  The functions this file calls and does not define. A decoder or encoder returns its
  buffer (\<open>None\<close> for \<^verbatim>\<open>NULL\<close>) and the length it stores through its last argument;
  \<open>final_sha1\<close> maps the bytes given to \<^verbatim>\<open>update_sha1\<close> since the last
  \<^verbatim>\<open>reset_sha1\<close> to the digest; \<open>malloc_ok n\<close> tells whether an allocation of
  \<open>n\<close> bytes succeeds.
\<close>

record 'f extern =
  base64_decode :: "string \<Rightarrow> nat \<Rightarrow> string option \<times> nat"
  base64_encode :: "string \<Rightarrow> nat \<Rightarrow> string \<times> nat"
  mxmlLoadString :: "string \<Rightarrow> mxml_node option"
  final_sha1 :: "string \<Rightarrow> string"
  npnt_check_authenticity :: "'f npnt_s \<Rightarrow> string \<Rightarrow> nat \<Rightarrow> string option \<Rightarrow> nat \<Rightarrow> int"
  atof :: "string \<Rightarrow> 'f"
  malloc_ok :: "nat \<Rightarrow> bool"

subsection \<open>Fence points and altitude (lines 251-334)\<close>

text \<open>The counting loop (lines 260-271); \<open>n\<close> is the \<^verbatim>\<open>uint16_t nverts\<close>.\<close>

fun count_coordinates :: "mxml_node list \<Rightarrow> nat \<Rightarrow> nat" where
  "count_coordinates [] n = n"
| "count_coordinates (node # rest) n =
     (case mxmlGetElement (Some node) of
        None \<Rightarrow> count_coordinates rest n
      | Some e \<Rightarrow>
          if e \<noteq> ''Coordinate'' then count_coordinates rest n
          else count_coordinates rest ((n + 1) mod 65536))"

text \<open>
  The reading loop (lines 283-307). The two arrays hold \<open>alloc\<close> cells each and are
  local to the function, so only the index of each store is kept; \<open>Inr None\<close> is the
  jump to \<^verbatim>\<open>fail\<close>.
\<close>

fun read_coordinates :: "nat \<Rightarrow> mxml_node list \<Rightarrow> nat \<Rightarrow> fault + nat option" where
  "read_coordinates alloc [] n = Inr (Some n)"
| "read_coordinates alloc (node # rest) n =
     (case mxmlGetElement (Some node) of
        None \<Rightarrow> read_coordinates alloc rest n
      | Some e \<Rightarrow>
          if e \<noteq> ''Coordinate'' then read_coordinates alloc rest n
          else
            (case mxmlElementGetAttr (Some node) ''latitude'' of
               None \<Rightarrow> Inr None
             | Some lat_str \<Rightarrow>
                 if \<not> n < alloc then Inl BufferOverflow
                 else
                   (case mxmlElementGetAttr (Some node) ''longitude'' of
                      None \<Rightarrow> Inr None
                    | Some lon_str \<Rightarrow> read_coordinates alloc rest ((n + 1) mod 65536))))"

text \<open>
  \<^verbatim>\<open>npnt_alloc_and_get_fence_points\<close>. The pointers \<^verbatim>\<open>vertlat\<close> and
  \<^verbatim>\<open>vertlon\<close> are passed by value, so the handle is not changed; the result is the
  returned \<^verbatim>\<open>int8_t\<close>. \<^verbatim>\<open>sizeof(float)\<close> is 4.
\<close>

definition npnt_alloc_and_get_fence_points :: "'f extern \<Rightarrow> 'f npnt_s \<Rightarrow> fault + int" where
  "npnt_alloc_and_get_fence_points ext h =
     (let first_coordinate =
            mxmlGetFirstChild (mxmlFindElement (parsed_permart h) ''Coordinates'');
          nv = count_coordinates first_coordinate 0
      in if \<not> malloc_ok ext (nv * 4) then Inr (- 1)
         else
           (case read_coordinates nv first_coordinate 0 of
              Inl f \<Rightarrow> Inl f
            | Inr None \<Rightarrow> Inr (- 1)
            | Inr (Some n) \<Rightarrow> Inr (i8 (int n))))"

text \<open>
  \<^verbatim>\<open>npnt_get_max_altitude\<close>: the returned value and the \<^verbatim>\<open>float\<close> that
  \<open>altitude\<close> points to (\<open>None\<close> for a null pointer).
\<close>

definition npnt_get_max_altitude ::
  "'f extern \<Rightarrow> 'f npnt_s \<Rightarrow> 'f option \<Rightarrow> int \<times> 'f option" where
  "npnt_get_max_altitude ext h altitude =
     (case altitude of
        None \<Rightarrow> (- 1, None)
      | Some old \<Rightarrow>
          (case mxmlFindElement (parsed_permart h) ''FlightParameters'' of
             None \<Rightarrow> (- 1, Some old)
           | Some flightparams \<Rightarrow>
               (case mxmlElementGetAttr (Some flightparams) ''maxAltitude'' of
                  Some alt_str \<Rightarrow> (0, Some (atof ext alt_str))
                | None \<Rightarrow> (- 1, Some old))))"

subsection \<open>Flight parameters (lines 377-426)\<close>

definition npnt_get_attr :: "'f extern \<Rightarrow> mxml_node option \<Rightarrow> string \<Rightarrow> string option" where
  "npnt_get_attr ext node attr =
     (case mxmlElementGetAttr node attr of
        None \<Rightarrow> None
      | Some tmp \<Rightarrow> if \<not> malloc_ok ext (length tmp + 1) then None else Some tmp)"

definition npnt_populate_flight_params ::
  "'f extern \<Rightarrow> npnt_codes \<Rightarrow> 'f npnt_s \<Rightarrow> fault + (int \<times> 'f npnt_s)" where
  "npnt_populate_flight_params ext c h =
     (case mxmlFindElement (parsed_permart h) ''UADetails'' of
        None \<Rightarrow> Inr (NPNT_INV_FPARAMS c, h)
      | Some ua_detail \<Rightarrow>
     (case mxmlFindElement (parsed_permart h) ''FlightParameters'' of
        None \<Rightarrow> Inr (NPNT_INV_FPARAMS c, h)
      | Some flight_params \<Rightarrow>
     (let h1 = h\<lparr>params := (params h)\<lparr>uinNo := npnt_get_attr ext (Some ua_detail) ''uinNo''\<rparr>\<rparr>
      in if uinNo (params h1) = None then Inr (NPNT_INV_FPARAMS c, h1) else
     (let h2 = h1\<lparr>params := (params h1)\<lparr>adcNumber :=
                  npnt_get_attr ext (Some flight_params) ''adcNumber''\<rparr>\<rparr>
      in if adcNumber (params h2) = None then Inr (NPNT_INV_FPARAMS c, h2) else
     (let h3 = h2\<lparr>params := (params h2)\<lparr>ficNumber :=
                  npnt_get_attr ext (Some flight_params) ''ficNumber''\<rparr>\<rparr>
      in if ficNumber (params h3) = None then Inr (NPNT_INV_FPARAMS c, h3) else
     (case npnt_ist_date_time_to_unix_time
             (mxmlElementGetAttr (Some flight_params) ''flightEndTime'')
             (Some (flightEndTime (params h3))) of
        Inl f \<Rightarrow> Inl f
      | Inr (r1, t1) \<Rightarrow>
     (let h4 = h3\<lparr>params := (params h3)\<lparr>flightEndTime :=
                  (case t1 of Some t \<Rightarrow> t | None \<Rightarrow> flightEndTime (params h3))\<rparr>\<rparr>
      in if r1 < 0 then Inr (NPNT_INV_FPARAMS c, h4) else
     (case npnt_ist_date_time_to_unix_time
             (mxmlElementGetAttr (Some flight_params) ''flightStartTime'')
             (Some (flightStartTime (params h4))) of
        Inl f \<Rightarrow> Inl f
      | Inr (r2, t2) \<Rightarrow>
     (let h5 = h4\<lparr>params := (params h4)\<lparr>flightStartTime :=
                  (case t2 of Some t \<Rightarrow> t | None \<Rightarrow> flightStartTime (params h4))\<rparr>\<rparr>
      in if r2 < 0 then Inr (NPNT_INV_FPARAMS c, h5) else Inr (0, h5))))))))))"

subsection \<open>Verification (lines 93-249)\<close>

text \<open>
  Lines 110-228 of \<^verbatim>\<open>npnt_verify_permart\<close>, up to the encoding of the body digest.
  The result is \<open>Inr (Inl ret)\<close> where the code jumps to \<^verbatim>\<open>fail\<close> with status
  \<open>ret\<close>, and \<open>Inr (Inr (buffer, length))\<close> with the encoded digest otherwise.
  Offsetting the null pointer that \<^verbatim>\<open>strstr\<close> returns when it finds nothing is
  undefined; a pointer that was found and offset is never null, so the test of line 116
  has no branch of its own. \<open>lee0\<close> is the first content of
  \<^verbatim>\<open>last_empty_element\<close>.
\<close>

definition verify_encoded_digest ::
  "'f extern \<Rightarrow> npnt_codes \<Rightarrow> name_buf \<Rightarrow> 'f npnt_s \<Rightarrow> fault + (int + string \<times> nat)" where
  \<open>verify_encoded_digest ext c lee0 h =
     (case raw_permart h of
        None \<Rightarrow> Inl NullDeref
      | Some block \<Rightarrow>
     (case cstr block of
        None \<Rightarrow> Inl MemFault
      | Some s \<Rightarrow>
     (case strstr s ''<SignedInfo>'' of
        None \<Rightarrow> Inl NullArith
      | Some k1 \<Rightarrow>
     (let signed_info = k1 + 12 in
     (case strstr s ''<SignatureValue'' of
        None \<Rightarrow> Inl NullArith
      | Some k2 \<Rightarrow>
     (let signedinfo_length = i16 (int k2 - int signed_info) in
      if signedinfo_length < 0 then Inr (Inl (NPNT_INV_ART c)) else
     (case canon_loop (drop signed_info block) (nat signedinfo_length) 0 lee0
             ''<SignedInfo xmlns="http://www.w3.org/2000/09/xmldsig#">'' of
        Inl f \<Rightarrow> Inl f
      | Inr (lee1, sha_a) \<Rightarrow>
     (let digest_value = final_sha1 ext sha_a in
     (case mxmlGetOpaque (mxmlFindElement (parsed_permart h) ''SignatureValue'') of
        None \<Rightarrow> Inr (Inl (NPNT_INV_SIGN c))
      | Some signature \<Rightarrow>
     (let signature_len = length signature mod 65536;
          (raw_signature, raw_signature_len) = base64_decode ext signature signature_len
      in if npnt_check_authenticity ext h digest_value 20 raw_signature raw_signature_len \<le> 0
         then Inr (Inl (NPNT_INV_AUTH c)) else
     (case strstr s ''<UAPermission>'' of
        None \<Rightarrow> Inr (Inl (NPNT_INV_ART c))
      | Some k3 \<Rightarrow>
     (case strstr s ''<Signature'' of
        None \<Rightarrow> Inl NullArith
      | Some k4 \<Rightarrow>
     (let permission_length = i16 (int k4 - int k3) in
      if permission_length < 0 then Inr (Inl (NPNT_INV_ART c)) else
     (case canon_loop (drop k3 block) (nat permission_length) 0 lee1 [] of
        Inl f \<Rightarrow> Inl f
      | Inr (lee2, sha_b) \<Rightarrow>
     (case strstr s ''</Signature>'' of
        None \<Rightarrow> Inl NullArith
      | Some k5 \<Rightarrow>
          Inr (Inr (base64_encode ext (final_sha1 ext (sha_b @ drop (k5 + 12) s)) 20))
     )))))))))))))))\<close>

text \<open>
  The comparison loop (lines 234-239): \<open>b64\<close> is the encoder's buffer, \<open>rcvd\<close> the
  text of \<^verbatim>\<open>DigestValue\<close> (its terminator can be read), \<open>lim\<close> is
  \<^verbatim>\<open>base64_digest_value_len - 1\<close>; \<open>Inr False\<close> is the jump to \<^verbatim>\<open>fail\<close>.
\<close>

function digest_check :: "string \<Rightarrow> string option \<Rightarrow> nat \<Rightarrow> nat \<Rightarrow> fault + bool" where
  "digest_check b64 rcvd lim i =
     (if i < lim then
        (case rd b64 i of
           None \<Rightarrow> Inl MemFault
         | Some a \<Rightarrow>
             (case rcvd of
                None \<Rightarrow> Inl NullDeref
              | Some r \<Rightarrow>
                  (case rd (r @ [NUL]) i of
                     None \<Rightarrow> Inl MemFault
                   | Some b \<Rightarrow>
                       if a \<noteq> b then Inr False else digest_check b64 rcvd lim (i + 1))))
      else Inr True)"
  by pat_completeness auto
termination
  by (relation "measure (\<lambda>(b64, rcvd, lim, i). lim - i)") auto

declare digest_check.simps [simp del]

definition npnt_verify_permart ::
  "'f extern \<Rightarrow> npnt_codes \<Rightarrow> name_buf \<Rightarrow> 'f npnt_s \<Rightarrow> fault + int" where
  "npnt_verify_permart ext c lee0 h =
     (case verify_encoded_digest ext c lee0 h of
        Inl f \<Rightarrow> Inl f
      | Inr (Inl ret) \<Rightarrow> Inr ret
      | Inr (Inr (base64_digest_value, base64_digest_value_len)) \<Rightarrow>
          (case digest_check base64_digest_value
                  (mxmlGetOpaque (mxmlFindElement (parsed_permart h) ''DigestValue''))
                  (base64_digest_value_len - 1) 0 of
             Inl f \<Rightarrow> Inl f
           | Inr False \<Rightarrow> Inr (NPNT_INV_DGST c)
           | Inr True \<Rightarrow> Inr 0))"

subsection \<open>Setting the artefact (lines 31-90)\<close>

text \<open>
  Lines 42-59: the raw bytes and the parsed tree. \<open>Inr (Inl (ret, h'))\<close> is a return
  with status \<open>ret\<close>, \<open>Inr (Inr h')\<close> the handle on which line 61 goes on.
\<close>

definition set_permart_load ::
  "'f extern \<Rightarrow> npnt_codes \<Rightarrow> 'f npnt_s \<Rightarrow> string \<Rightarrow> nat \<Rightarrow> nat
     \<Rightarrow> fault + (int \<times> 'f npnt_s + 'f npnt_s)" where
  "set_permart_load ext c h permart permart_length base64_encoded =
     (case (if base64_encoded \<noteq> 0 then
              (let (p, l) = base64_decode ext permart permart_length
               in Inr (h\<lparr>raw_permart := p, raw_permart_len := l\<rparr>))
            else if \<not> malloc_ok ext permart_length then Inr h
            else
              (case rd_n permart 0 permart_length of
                 None \<Rightarrow> Inl MemFault
               | Some bs \<Rightarrow> Inr (h\<lparr>raw_permart := Some bs\<rparr>))) of
        Inl f \<Rightarrow> Inl f
      | Inr h1 \<Rightarrow>
          (case raw_permart h1 of
             None \<Rightarrow> Inr (Inl (NPNT_PARSE_FAILED c, h1))
           | Some block \<Rightarrow>
               (case cstr block of
                  None \<Rightarrow> Inl MemFault
                | Some s \<Rightarrow>
                    (let h2 = h1\<lparr>parsed_permart := mxmlLoadString ext s\<rparr>
                     in if parsed_permart h2 = None then Inr (Inl (NPNT_PARSE_FAILED c, h2))
                        else Inr (Inr h2)))))"

text \<open>Lines 76-89: altitude and flight parameters, once the fence count is stored.\<close>

definition set_permart_params ::
  "'f extern \<Rightarrow> npnt_codes \<Rightarrow> 'f npnt_s \<Rightarrow> fault + (int \<times> 'f npnt_s)" where
  "set_permart_params ext c h =
     (let (ret, alt) = npnt_get_max_altitude ext h (Some (maxAltitude (fence h)));
          h1 = h\<lparr>fence := (fence h)\<lparr>maxAltitude :=
                 (case alt of Some a \<Rightarrow> a | None \<Rightarrow> maxAltitude (fence h))\<rparr>\<rparr>
      in if ret < 0 then Inr (NPNT_INV_BAD_ALT c, h1)
         else
           (case npnt_populate_flight_params ext c h1 of
              Inl f \<Rightarrow> Inl f
            | Inr (ret, h2) \<Rightarrow>
                if ret < 0 then Inr (NPNT_INV_FPARAMS c, h2\<lparr>fence := (fence h2)\<lparr>nverts := 0\<rparr>\<rparr>)
                else Inr (0, h2)))"

text \<open>
  \<^verbatim>\<open>npnt_set_permart\<close>: the returned status and the handle afterwards. \<open>handle\<close>
  is \<open>None\<close> for a null pointer.
\<close>

definition npnt_set_permart ::
  "'f extern \<Rightarrow> npnt_codes \<Rightarrow> name_buf \<Rightarrow> 'f npnt_s option \<Rightarrow> string \<Rightarrow> nat \<Rightarrow> nat
     \<Rightarrow> fault + (int \<times> 'f npnt_s option)" where
  "npnt_set_permart ext c lee0 handle permart permart_length base64_encoded =
     (case handle of
        None \<Rightarrow> Inr (NPNT_UNALLOC_HANDLE c, None)
      | Some h \<Rightarrow>
          if raw_permart h \<noteq> None then Inr (NPNT_ALREADY_SET c, Some h)
          else
            (case set_permart_load ext c h permart permart_length base64_encoded of
               Inl f \<Rightarrow> Inl f
             | Inr (Inl (ret, h1)) \<Rightarrow> Inr (ret, Some h1)
             | Inr (Inr h2) \<Rightarrow>
                 (case npnt_verify_permart ext c lee0 h2 of
                    Inl f \<Rightarrow> Inl f
                  | Inr ret \<Rightarrow>
                      if ret < 0 then Inr (ret, Some h2)
                      else
                        (case npnt_alloc_and_get_fence_points ext h2 of
                           Inl f \<Rightarrow> Inl f
                         | Inr ret \<Rightarrow>
                             if ret \<le> 0 then
                               Inr (NPNT_BAD_FENCE c, Some (h2\<lparr>fence := (fence h2)\<lparr>nverts := 0\<rparr>\<rparr>))
                             else
                               map_sum id (map_prod id Some)
                                 (set_permart_params ext c
                                    (h2\<lparr>fence := (fence h2)\<lparr>nverts := ret\<rparr>\<rparr>))))))"

subsection \<open>Properties of inputs\<close>

text \<open>
  The \<^verbatim>\<open>Coordinate\<close> elements among the children of the first \<^verbatim>\<open>Coordinates\<close>
  element, in document order, and whether one carries both attributes.
\<close>

definition is_coordinate :: "mxml_node \<Rightarrow> bool" where
  "is_coordinate node = (mxmlGetElement (Some node) = Some ''Coordinate'')"

definition coordinate_nodes :: "mxml_node option \<Rightarrow> mxml_node list" where
  "coordinate_nodes tree =
     filter is_coordinate (mxmlGetFirstChild (mxmlFindElement tree ''Coordinates''))"

definition has_lat_lon :: "mxml_node \<Rightarrow> bool" where
  "has_lat_lon node =
     (mxmlElementGetAttr (Some node) ''latitude'' \<noteq> None \<and>
      mxmlElementGetAttr (Some node) ''longitude'' \<noteq> None)"





subsection \<open>Sample documents\<close>

text \<open>
  Small documents with the trees Mini-XML builds from them, and stand-ins for the
  collaborators: a digest that is always twenty letters, an encoder and a decoder that
  copy, an authenticity check that accepts one signature, allocations that succeed.
\<close>

definition sample_codes :: npnt_codes where
  "sample_codes = \<lparr>NPNT_UNALLOC_HANDLE = - 1, NPNT_ALREADY_SET = - 2, NPNT_PARSE_FAILED = - 3,
     NPNT_INV_ART = - 4, NPNT_INV_SIGN = - 5, NPNT_INV_AUTH = - 6, NPNT_INV_DGST = - 7,
     NPNT_BAD_FENCE = - 8, NPNT_INV_BAD_ALT = - 9, NPNT_INV_FPARAMS = - 10\<rparr>"

text \<open>One vertex, and a \<^verbatim>\<open>FlightParameters\<close> element without \<^verbatim>\<open>maxAltitude\<close>.\<close>

definition sample_doc_a :: string where
  \<open>sample_doc_a = ''<UAPermission><FlightParameters><Coordinates><Coordinate latitude="1" longitude="2"/></Coordinates></FlightParameters><Signature><SignedInfo><DigestValue>AAAAAAAAAAAAAAAAAAAA</DigestValue></SignedInfo><SignatureValue>c2ln</SignatureValue></Signature></UAPermission>''\<close>

text \<open>No \<^verbatim>\<open>Coordinates\<close> element.\<close>

definition sample_doc_b :: string where
  \<open>sample_doc_b = ''<UAPermission><Signature><SignedInfo><DigestValue>AAAAAAAAAAAAAAAAAAAA</DigestValue></SignedInfo><SignatureValue>c2ln</SignatureValue></Signature></UAPermission>''\<close>

text \<open>A \<^verbatim>\<open>DigestValue\<close> that goes on after the twenty bytes of the encoded digest.\<close>

definition sample_doc_c :: string where
  \<open>sample_doc_c = ''<UAPermission><Signature><SignedInfo><DigestValue>AAAAAAAAAAAAAAAAAAAAXYZ</DigestValue></SignedInfo><SignatureValue>c2ln</SignatureValue></Signature></UAPermission>''\<close>

text \<open>No \<^verbatim>\<open>SignedInfo\<close> element.\<close>

definition sample_doc_d :: string where
  \<open>sample_doc_d = ''<UAPermission><Signature><SignatureValue>c2ln</SignatureValue></Signature></UAPermission>''\<close>

text \<open>A \<^verbatim>\<open>SignedInfo\<close> element and no \<^verbatim>\<open>SignatureValue\<close> element.\<close>

definition sample_doc_f :: string where
  \<open>sample_doc_f = ''<UAPermission><Signature><SignedInfo></SignedInfo></Signature></UAPermission>''\<close>

definition sample_signature :: "string \<Rightarrow> mxml_node" where
  "sample_signature digest =
     Element ''Signature'' []
       [Element ''SignedInfo'' [] [Element ''DigestValue'' [] [Opaque digest]],
        Element ''SignatureValue'' [] [Opaque ''c2ln'']]"

definition sample_tree_a :: mxml_node where
  "sample_tree_a =
     Element ''UAPermission'' []
       [Element ''FlightParameters'' []
         [Element ''Coordinates'' []
           [Element ''Coordinate'' [(''latitude'', ''1''), (''longitude'', ''2'')] []]],
        sample_signature ''AAAAAAAAAAAAAAAAAAAA'']"

definition sample_tree_b :: mxml_node where
  "sample_tree_b = Element ''UAPermission'' [] [sample_signature ''AAAAAAAAAAAAAAAAAAAA'']"

definition sample_tree_c :: mxml_node where
  "sample_tree_c = Element ''UAPermission'' [] [sample_signature ''AAAAAAAAAAAAAAAAAAAAXYZ'']"

definition sample_tree_d :: mxml_node where
  "sample_tree_d =
     Element ''UAPermission'' []
       [Element ''Signature'' [] [Element ''SignatureValue'' [] [Opaque ''c2ln'']]]"

definition sample_tree_f :: mxml_node where
  "sample_tree_f =
     Element ''UAPermission'' [] [Element ''Signature'' [] [Element ''SignedInfo'' [] []]]"

text \<open>Every identifier and \<^verbatim>\<open>flightStartTime\<close>, and no \<^verbatim>\<open>flightEndTime\<close>.\<close>

definition sample_tree_e :: mxml_node where
  "sample_tree_e =
     Element ''UAPermission'' []
       [Element ''UADetails'' [(''uinNo'', ''U1'')] [],
        Element ''FlightParameters''
          [(''adcNumber'', ''A1''), (''ficNumber'', ''F1''),
           (''flightStartTime'', ''2020-01-01T10:00:00''), (''maxAltitude'', ''100'')] []]"

definition sample_extern :: "int extern" where
  "sample_extern = \<lparr>
     base64_decode = (\<lambda>src n. (Some (take n src), n)),
     base64_encode = (\<lambda>src n. (take n src @ [NUL], n)),
     mxmlLoadString = map_of [(sample_doc_a, sample_tree_a), (sample_doc_b, sample_tree_b)],
     final_sha1 = (\<lambda>bytes. ''AAAAAAAAAAAAAAAAAAAA''),
     npnt_check_authenticity = (\<lambda>h digest n sig sig_len. if sig = Some ''c2ln'' then 1 else 0),
     atof = atoi,
     malloc_ok = (\<lambda>n. True)\<rparr>"

definition sample_tm :: tm where
  "sample_tm = \<lparr>tm_sec = 0, tm_min = 0, tm_hour = 0, tm_mday = 0, tm_mon = 0,
     tm_year = 0, tm_wday = 0, tm_yday = 0, tm_isdst = 0\<rparr>"

text \<open>A fresh handle, and the handle once a document is loaded and parsed.\<close>

definition sample_handle :: "int npnt_s" where
  "sample_handle = \<lparr>raw_permart = None, raw_permart_len = 0, parsed_permart = None,
     fence = \<lparr>nverts = 0, vertlat = None, vertlon = None, maxAltitude = 0\<rparr>,
     params = \<lparr>uinNo = None, adcNumber = None, ficNumber = None,
       flightEndTime = sample_tm, flightStartTime = sample_tm\<rparr>\<rparr>"

definition sample_parsed :: "string \<Rightarrow> mxml_node \<Rightarrow> int npnt_s" where
  "sample_parsed doc tree =
     sample_handle\<lparr>raw_permart := Some (doc @ [NUL]), parsed_permart := Some tree\<rparr>"

definition sample_buf :: name_buf where
  "sample_buf = (\<lambda>i. NUL)"



section \<open>Lemmas\<close>

subsection \<open>The scan on bounded names\<close>






subsection \<open>Counting and reading the vertices\<close>

lemma count_coordinates_filter:
  "count_coordinates ns n = (n + length (filter is_coordinate ns)) mod 65536" if "n < 65536"
  using that
proof (induction ns arbitrary: n)
  case Nil
  then show ?case by simp
next
  case (Cons node ns)
  have m: "(n + 1) mod 65536 < 65536" by simp
  show ?case
  proof (cases "is_coordinate node")
    case True
    then have "count_coordinates (node # ns) n = count_coordinates ns ((n + 1) mod 65536)"
      by (simp add: is_coordinate_def)
    also have "\<dots> = ((n + 1) mod 65536 + length (filter is_coordinate ns)) mod 65536"
      by (rule Cons.IH [OF m])
    also have "\<dots> = (n + 1 + length (filter is_coordinate ns)) mod 65536"
      by (rule mod_add_left_eq)
    finally show ?thesis using True by simp
  next
    case False
    then have "count_coordinates (node # ns) n = count_coordinates ns n"
      by (auto simp: is_coordinate_def split: option.splits)
    with Cons False show ?thesis by simp
  qed
qed

lemma read_coordinates_all:
  assumes "list_all has_lat_lon (filter is_coordinate ns)"
    and "n + length (filter is_coordinate ns) \<le> alloc" and "alloc < 65536"
  shows "read_coordinates alloc ns n = Inr (Some (n + length (filter is_coordinate ns)))"
  using assms
proof (induction ns arbitrary: n)
  case Nil
  then show ?case by simp
next
  case (Cons node ns)
  show ?case
  proof (cases "is_coordinate node")
    case True
    with Cons.prems have lt: "n < alloc" and small: "(n + 1) mod 65536 = n + 1"
      and attrs: "has_lat_lon node" by auto
    have "read_coordinates alloc (node # ns) n = read_coordinates alloc ns (n + 1)"
      using True lt small attrs by (auto simp: is_coordinate_def has_lat_lon_def)
    also have "\<dots> = Inr (Some (n + 1 + length (filter is_coordinate ns)))"
      using Cons.prems True by (intro Cons.IH) auto
    finally show ?thesis using True by simp
  next
    case False
    then have "read_coordinates alloc (node # ns) n = read_coordinates alloc ns n"
      by (auto simp: is_coordinate_def split: option.splits)
    with Cons False show ?thesis by simp
  qed
qed

lemma fence_points_count:
  assumes "N = length (coordinate_nodes (parsed_permart h))" "N < 65536"
    and "list_all has_lat_lon (coordinate_nodes (parsed_permart h))"
    and "malloc_ok ext (N * 4)"
  shows "npnt_alloc_and_get_fence_points ext h = Inr (i8 (int N))"
proof -
  let ?ns = "mxmlGetFirstChild (mxmlFindElement (parsed_permart h) ''Coordinates'')"
  have cnt: "count_coordinates ?ns 0 = N"
    using assms(1,2) by (simp add: count_coordinates_filter coordinate_nodes_def)
  have "read_coordinates N ?ns 0 = Inr (Some (0 + length (filter is_coordinate ?ns)))"
    using assms(1,2,3) by (intro read_coordinates_all) (auto simp: coordinate_nodes_def)
  then have "read_coordinates N ?ns 0 = Inr (Some N)"
    using assms(1) by (simp add: coordinate_nodes_def)
  with cnt assms(4) show ?thesis
    by (simp add: npnt_alloc_and_get_fence_points_def Let_def)
qed

lemma fence_points_none:
  assumes "coordinate_nodes (parsed_permart h) = []"
  shows "\<exists>r. npnt_alloc_and_get_fence_points ext h = Inr r \<and> r \<le> 0"
proof (cases "malloc_ok ext 0")
  case True
  from fence_points_count [of 0 h ext] assms True show ?thesis by (simp add: i8_def)
next
  case False
  let ?ns = "mxmlGetFirstChild (mxmlFindElement (parsed_permart h) ''Coordinates'')"
  have "count_coordinates ?ns 0 = 0"
    using assms by (simp add: count_coordinates_filter coordinate_nodes_def)
  with False show ?thesis
    by (simp add: npnt_alloc_and_get_fence_points_def Let_def)
qed

lemma i8_small: "1 \<le> N \<Longrightarrow> N \<le> 127 \<Longrightarrow> i8 (int N) = int N"
  by (simp add: i8_def)

lemma i8_range: "- 128 \<le> i8 x \<and> i8 x \<le> 127"
  unfolding i8_def
  using pos_mod_bound [of 256 "x + 128"] pos_mod_sign [of 256 "x + 128"] by linarith

lemma i8_large: "128 \<le> N \<Longrightarrow> i8 (int N) \<noteq> int N"
  using i8_range [of "int N"] by linarith

subsection \<open>The comparison loop and the stages of \<^verbatim>\<open>npnt_set_permart\<close>\<close>

lemma digest_check_prefix:
  assumes "lim \<le> length b64" "NUL \<notin> set (take lim b64)" "i \<le> lim" "take i b64 = take i r"
  shows "digest_check b64 (Some r) lim i = Inr (take lim b64 = take lim r)"
  using assms(3,4)
proof (induction "lim - i" arbitrary: i)
  case 0
  then have "i = lim" by simp
  with 0 show ?case by (subst digest_check.simps) simp
next
  case (Suc d)
  then have lt: "i < lim" by simp
  with assms(1) have ib: "i < length b64" by simp
  from Suc.prems(2) have "length (take i b64) = length (take i r)" by simp
  with ib have ir: "i \<le> length r" by simp
  have a_in: "b64 ! i \<in> set (take lim b64)"
    using lt ib by (metis in_set_conv_nth length_take min_less_iff_conj nth_take)
  with assms(2) have a_nz: "b64 ! i \<noteq> NUL" by metis
  show ?case
  proof (cases "i < length r")
    case True
    show ?thesis
    proof (cases "b64 ! i = r ! i")
      case True
      have "take (Suc i) b64 = take (Suc i) r"
        using True \<open>i < length r\<close> ib Suc.prems(2) by (simp add: take_Suc_conv_app_nth)
      moreover have "d = lim - Suc i" using Suc.hyps(2) by simp
      ultimately have "digest_check b64 (Some r) lim (Suc i) = Inr (take lim b64 = take lim r)"
        using lt by (intro Suc.hyps(1)) auto
      then show ?thesis
        using lt ib True \<open>i < length r\<close>
        by (subst digest_check.simps) (simp add: rd_def nth_append)
    next
      case False
      have "take lim b64 \<noteq> take lim r"
      proof
        assume "take lim b64 = take lim r"
        then have "take lim b64 ! i = take lim r ! i" by simp
        with lt have "b64 ! i = r ! i" by simp
        with False show False by simp
      qed
      then show ?thesis
        using lt ib False \<open>i < length r\<close>
        by (subst digest_check.simps) (simp add: rd_def nth_append)
    qed
  next
    case False
    with ir have eq: "i = length r" by simp
    have "take lim b64 \<noteq> take lim r"
    proof
      assume "take lim b64 = take lim r"
      then have "length (take lim b64) = length (take lim r)" by simp
      with assms(1) lt eq show False by simp
    qed
    then show ?thesis
      using lt ib eq a_nz
      by (subst digest_check.simps) (simp add: rd_def nth_append)
  qed
qed

lemma verify_compare:
  assumes "verify_encoded_digest ext c lee0 h = Inr (Inr (b64, n))"
    and "mxmlGetOpaque (mxmlFindElement (parsed_permart h) ''DigestValue'') = Some rcvd"
    and "n - 1 \<le> length b64" and "NUL \<notin> set (take (n - 1) b64)"
  shows "npnt_verify_permart ext c lee0 h =
    Inr (if take (n - 1) b64 = take (n - 1) rcvd then 0 else NPNT_INV_DGST c)"
  using assms digest_check_prefix [of "n - 1" b64 0 rcvd]
  by (simp add: npnt_verify_permart_def)

lemma set_permart_fence_stage:
  assumes "raw_permart h = None"
    and "set_permart_load ext c h permart permart_length base64_encoded = Inr (Inr h2)"
    and "npnt_verify_permart ext c lee0 h2 = Inr v" and "0 \<le> v"
    and "npnt_alloc_and_get_fence_points ext h2 = Inr n"
  shows "npnt_set_permart ext c lee0 (Some h) permart permart_length base64_encoded =
     (if n \<le> 0 then Inr (NPNT_BAD_FENCE c, Some (h2\<lparr>fence := (fence h2)\<lparr>nverts := 0\<rparr>\<rparr>))
      else map_sum id (map_prod id Some)
             (set_permart_params ext c (h2\<lparr>fence := (fence h2)\<lparr>nverts := n\<rparr>\<rparr>)))"
  using assms by (simp add: npnt_set_permart_def)

subsection \<open>The sample documents, run\<close>

lemmas sample_defs = sample_extern_def sample_codes_def sample_handle_def sample_parsed_def
  sample_doc_a_def sample_doc_b_def sample_doc_c_def sample_doc_d_def sample_doc_f_def
  sample_tree_a_def sample_tree_b_def sample_tree_c_def sample_tree_d_def sample_tree_e_def
  sample_tree_f_def
  sample_signature_def sample_tm_def

lemmas canon_eval = canon_loop.simps scan_name.simps rd_def wr_def rd_n_def buf_strlen_def upt_rec

lemmas mxml_defs = mxmlGetOpaque_def mxmlFindElement_def mxmlGetFirstChild_def
  mxmlGetElement_def mxmlElementGetAttr_def

lemma sample_a_encoded:
  "verify_encoded_digest sample_extern sample_codes lee (sample_parsed sample_doc_a sample_tree_a)
     = Inr (Inr (''AAAAAAAAAAAAAAAAAAAA'' @ [NUL], 20))"
  by (simp add: verify_encoded_digest_def sample_defs cstr_def i16_def canon_eval mxml_defs)

lemma sample_b_encoded:
  "verify_encoded_digest sample_extern sample_codes lee (sample_parsed sample_doc_b sample_tree_b)
     = Inr (Inr (''AAAAAAAAAAAAAAAAAAAA'' @ [NUL], 20))"
  by (simp add: verify_encoded_digest_def sample_defs cstr_def i16_def canon_eval mxml_defs)

lemma sample_c_encoded:
  "verify_encoded_digest sample_extern sample_codes lee (sample_parsed sample_doc_c sample_tree_c)
     = Inr (Inr (''AAAAAAAAAAAAAAAAAAAA'' @ [NUL], 20))"
  by (simp add: verify_encoded_digest_def sample_defs cstr_def i16_def canon_eval mxml_defs)

lemma sample_a_digest_value:
  "mxmlGetOpaque (mxmlFindElement (parsed_permart (sample_parsed sample_doc_a sample_tree_a))
     ''DigestValue'') = Some ''AAAAAAAAAAAAAAAAAAAA''"
  by (simp add: sample_defs mxml_defs)

lemma sample_b_digest_value:
  "mxmlGetOpaque (mxmlFindElement (parsed_permart (sample_parsed sample_doc_b sample_tree_b))
     ''DigestValue'') = Some ''AAAAAAAAAAAAAAAAAAAA''"
  by (simp add: sample_defs mxml_defs)

lemma sample_c_digest_value:
  "mxmlGetOpaque (mxmlFindElement (parsed_permart (sample_parsed sample_doc_c sample_tree_c))
     ''DigestValue'') = Some ''AAAAAAAAAAAAAAAAAAAAXYZ''"
  by (simp add: sample_defs mxml_defs)

lemma sample_a_verified:
  "npnt_verify_permart sample_extern sample_codes lee (sample_parsed sample_doc_a sample_tree_a)
     = Inr 0"
  using verify_compare [OF sample_a_encoded sample_a_digest_value] by simp

lemma sample_b_verified:
  "npnt_verify_permart sample_extern sample_codes lee (sample_parsed sample_doc_b sample_tree_b)
     = Inr 0"
  using verify_compare [OF sample_b_encoded sample_b_digest_value] by simp

lemma sample_a_loaded:
  "set_permart_load sample_extern sample_codes sample_handle (sample_doc_a @ [NUL]) 266 0
     = Inr (Inr (sample_parsed sample_doc_a sample_tree_a))"
  by (simp add: set_permart_load_def sample_defs rd_n_def cstr_def)

lemma sample_b_loaded:
  "set_permart_load sample_extern sample_codes sample_handle (sample_doc_b @ [NUL]) 162 0
     = Inr (Inr (sample_parsed sample_doc_b sample_tree_b))"
  by (simp add: set_permart_load_def sample_defs rd_n_def cstr_def)

lemma sample_handle_fresh: "raw_permart sample_handle = None"
  by (simp add: sample_handle_def)

lemma sample_a_coordinates:
  "coordinate_nodes (parsed_permart (sample_parsed sample_doc_a sample_tree_a))
     = [Element ''Coordinate'' [(''latitude'', ''1''), (''longitude'', ''2'')] []]"
  by (simp add: coordinate_nodes_def is_coordinate_def sample_defs mxml_defs)

lemma sample_b_coordinates:
  "coordinate_nodes (parsed_permart (sample_parsed sample_doc_b sample_tree_b)) = []"
  by (simp add: coordinate_nodes_def is_coordinate_def sample_defs mxml_defs)

lemma sample_a_fence:
  "npnt_alloc_and_get_fence_points sample_extern (sample_parsed sample_doc_a sample_tree_a) = Inr 1"
  by (simp add: npnt_alloc_and_get_fence_points_def sample_defs mxml_defs i8_def)

lemma sample_a_params:
  "set_permart_params sample_extern sample_codes
     ((sample_parsed sample_doc_a sample_tree_a)
        \<lparr>fence := (fence (sample_parsed sample_doc_a sample_tree_a))\<lparr>nverts := 1\<rparr>\<rparr>)
   = Inr (NPNT_INV_BAD_ALT sample_codes,
       (sample_parsed sample_doc_a sample_tree_a)
         \<lparr>fence := (fence (sample_parsed sample_doc_a sample_tree_a))\<lparr>nverts := 1\<rparr>\<rparr>)"
  by (simp add: set_permart_params_def npnt_get_max_altitude_def sample_defs mxml_defs)

lemma populate_flight_params_fence:
  "npnt_populate_flight_params ext c h = Inr (r, h') \<Longrightarrow> fence h' = fence h"
  unfolding npnt_populate_flight_params_def Let_def
  by (auto split: option.splits if_splits sum.splits prod.splits)

lemma set_permart_params_nverts:
  assumes "set_permart_params ext c h = Inr (r, h')"
  shows "nverts (fence h') = nverts (fence h)
     \<or> (r = NPNT_INV_FPARAMS c \<and> nverts (fence h') = 0)"
  using assms unfolding set_permart_params_def Let_def
  by (auto split: option.splits if_splits sum.splits prod.splits
      dest: populate_flight_params_fence)

lemma verify_missing_marker:
  assumes "raw_permart h = Some block" and "cstr block = Some s"
    and "strstr s ''<SignedInfo>'' = None \<or> strstr s ''<SignatureValue'' = None"
  shows "npnt_verify_permart ext c lee0 h = Inl NullArith"
  using assms
  by (auto simp: npnt_verify_permart_def verify_encoded_digest_def Let_def split: option.splits)

lemma bad_altitude_count_kept:
  assumes "fst (npnt_get_max_altitude ext h (Some (maxAltitude (fence h)))) < 0"
  shows "\<exists>h'. set_permart_params ext c h = Inr (NPNT_INV_BAD_ALT c, h')
           \<and> nverts (fence h') = nverts (fence h)"
  using assms by (auto simp: set_permart_params_def Let_def split: prod.splits)

lemma timestamp_wrong_length:
  "length s \<noteq> 19 \<Longrightarrow> npnt_ist_date_time_to_unix_time (Some s) t = Inr (- 1, t)"
  by (simp add: npnt_ist_date_time_to_unix_time_def)

section \<open>The claims\<close>

text \<open>
  C1. The scan rewrites a self-closing element into an open/close pair: the range
  \<open><Foo a="1"/>\<close> gives the digest the bytes \<open><Foo a="1"></Foo>\<close>, and the range
  \<open><Foo/>\<close> should give it \<open><Foo></Foo>\<close>. The code does the first; on the second the
  name is cleared when the scan of line 199 reaches \<open>>\<close>, and the range is passed
  through unchanged. Both hold for every first content of the name buffer and whatever
  follows the range.
\<close>

theorem self_closing_rewrite_examples:
  \<open>fed (canon_loop (''<Foo a="1"/>'' @ rest) 12 0 lee []) = Inr ''<Foo a="1"></Foo>'' \<and>
   fed (canon_loop (''<Foo/>'' @ rest) 6 0 lee []) = Inr ''<Foo/>''\<close>
  by (simp add: fed_def canon_eval)

text \<open>
  C2. When \<^verbatim>\<open>npnt_set_permart\<close> fails after the fence count is stored, the count is
  zero on return. The code resets it on the flight-parameter failure and not on the
  altitude failure: the first sample document verifies, has one vertex and no
  \<^verbatim>\<open>maxAltitude\<close>; the call returns \<^verbatim>\<open>NPNT_INV_BAD_ALT\<close> and the count is 1.
\<close>

theorem bad_altitude_keeps_vertex_count:
  "map_sum id (map_prod id (map_option (nverts \<circ> fence)))
     (npnt_set_permart sample_extern sample_codes lee (Some sample_handle)
        (sample_doc_a @ [NUL]) 266 0)
   = Inr (NPNT_INV_BAD_ALT sample_codes, Some 1)"
  using set_permart_fence_stage
    [OF sample_handle_fresh sample_a_loaded sample_a_verified _ sample_a_fence, of lee]
    sample_a_params
  by simp

text \<open>
  C3, as stated: any mismatch between the encoded digest and the text of
  \<^verbatim>\<open>DigestValue\<close>, also a difference of length, gives \<^verbatim>\<open>NPNT_INV_DGST\<close>. On the
  third sample document the encoded digest has 20 bytes, the text has 23, and the
  verification returns 0.
\<close>

theorem digest_longer_value_accepted:
  "verify_encoded_digest sample_extern sample_codes sample_buf
      (sample_parsed sample_doc_c sample_tree_c)
     = Inr (Inr (''AAAAAAAAAAAAAAAAAAAA'' @ [NUL], 20)) \<and>
   mxmlGetOpaque (mxmlFindElement (parsed_permart (sample_parsed sample_doc_c sample_tree_c))
      ''DigestValue'') = Some ''AAAAAAAAAAAAAAAAAAAAXYZ'' \<and>
   npnt_verify_permart sample_extern sample_codes sample_buf
      (sample_parsed sample_doc_c sample_tree_c) = Inr 0 \<and>
   NPNT_INV_DGST sample_codes \<noteq> 0"
  using verify_compare [OF sample_c_encoded sample_c_digest_value, of sample_buf]
    sample_c_encoded [of sample_buf] sample_c_digest_value
  by (simp add: sample_codes_def)

text \<open>
  C3, amended: when the verification reaches the comparison with an encoded digest of
  length \<open>n\<close> that holds no zero byte among its first \<open>n - 1\<close> bytes, it returns
  \<^verbatim>\<open>NPNT_INV_DGST\<close> exactly when the text of \<^verbatim>\<open>DigestValue\<close> does not begin with
  those \<open>n - 1\<close> bytes, and 0 otherwise; what the text holds after them is not compared.
\<close>

theorem digest_compare_prefix:
  assumes "verify_encoded_digest ext c lee0 h = Inr (Inr (b64, n))"
    and "mxmlGetOpaque (mxmlFindElement (parsed_permart h) ''DigestValue'') = Some rcvd"
    and "n - 1 \<le> length b64" and "NUL \<notin> set (take (n - 1) b64)"
  shows "npnt_verify_permart ext c lee0 h =
    Inr (if take (n - 1) b64 = take (n - 1) rcvd then 0 else NPNT_INV_DGST c)"
  using assms by (rule verify_compare)

theorem digest_compare_prefix_witness:
  "verify_encoded_digest sample_extern sample_codes sample_buf
      (sample_parsed sample_doc_b sample_tree_b)
     = Inr (Inr (''AAAAAAAAAAAAAAAAAAAA'' @ [NUL], 20)) \<and>
   mxmlGetOpaque (mxmlFindElement (parsed_permart (sample_parsed sample_doc_b sample_tree_b))
      ''DigestValue'') = Some ''AAAAAAAAAAAAAAAAAAAA'' \<and>
   npnt_verify_permart sample_extern sample_codes sample_buf
      (sample_parsed sample_doc_b sample_tree_b) = Inr 0"
  using digest_compare_prefix [OF sample_b_encoded sample_b_digest_value, of sample_buf]
    sample_b_encoded [of sample_buf] sample_b_digest_value
  by simp

text \<open>
  C4. An artefact without the \<open><SignedInfo>\<close> marker, or without the
  \<open><SignatureValue\<close> marker, is rejected with \<^verbatim>\<open>NPNT_INV_ART\<close>. The code adds 12
  to the result of \<^verbatim>\<open>strstr\<close> before it tests it, so the test of line 116 never
  holds, and it subtracts from the second result without testing it: on a document
  without \<^verbatim>\<open>SignedInfo\<close>, and on one without \<^verbatim>\<open>SignatureValue\<close>, the
  verification computes with a null pointer and returns no status.
\<close>

theorem missing_marker_faults:
  "npnt_verify_permart sample_extern sample_codes lee (sample_parsed sample_doc_d sample_tree_d)
     = Inl NullArith \<and>
   npnt_verify_permart sample_extern sample_codes lee (sample_parsed sample_doc_f sample_tree_f)
     = Inl NullArith"
  by (simp add: npnt_verify_permart_def verify_encoded_digest_def sample_defs cstr_def)

text \<open>
  C5, as stated: \<open>2020-01-01T10:00:00\<close> converts to hour 4 and minute 30. The fields
  the code stores differ from these (the year is stored as years since 1900).
\<close>

theorem timestamp_fields_counterexample:
  "npnt_ist_date_time_to_unix_time (Some ''2020-01-01T10:00:00'') (Some sample_tm) \<noteq>
     Inr (0, Some \<lparr>tm_sec = 0, tm_min = 30, tm_hour = 4, tm_mday = 1, tm_mon = 1,
       tm_year = 120, tm_wday = 0, tm_yday = 0, tm_isdst = 0\<rparr>)"
  by (simp add: npnt_ist_date_time_to_unix_time_def atoi_def isspace_def isdigit_def)

text \<open>
  C5, amended: the conversion of \<open>2020-01-01T10:00:00\<close> succeeds with year field 120
  (2020 less 1900), month 1, day 1, hour \<open>10 - 5 = 5\<close>, minute \<open>0 - 30 = -30\<close> and
  second 0: each field is subtracted on its own, with no borrow.
\<close>

theorem timestamp_fields:
  "npnt_ist_date_time_to_unix_time (Some ''2020-01-01T10:00:00'') (Some t0) =
     Inr (0, Some \<lparr>tm_sec = 0, tm_min = - 30, tm_hour = 5, tm_mday = 1, tm_mon = 1,
       tm_year = 120, tm_wday = 0, tm_yday = 0, tm_isdst = 0\<rparr>)"
  by (simp add: npnt_ist_date_time_to_unix_time_def atoi_def isspace_def isdigit_def)

text \<open>
  C6. On a handle that already holds raw bytes, \<^verbatim>\<open>npnt_set_permart\<close> returns
  \<^verbatim>\<open>NPNT_ALREADY_SET\<close> and the handle is unchanged in every field.
\<close>

theorem already_set_unchanged:
  assumes "raw_permart h \<noteq> None"
  shows "npnt_set_permart ext c lee0 (Some h) permart permart_length base64_encoded =
    Inr (NPNT_ALREADY_SET c, Some h)"
  using assms by (simp add: npnt_set_permart_def)

theorem already_set_unchanged_witness:
  "raw_permart (sample_parsed sample_doc_a sample_tree_a) \<noteq> None \<and>
   npnt_set_permart sample_extern sample_codes sample_buf
     (Some (sample_parsed sample_doc_a sample_tree_a)) (sample_doc_b @ [NUL]) 162 0 =
    Inr (NPNT_ALREADY_SET sample_codes, Some (sample_parsed sample_doc_a sample_tree_a))"
proof -
  have set: "raw_permart (sample_parsed sample_doc_a sample_tree_a) \<noteq> None"
    by (simp add: sample_parsed_def)
  from already_set_unchanged [OF set] set show ?thesis by simp
qed




text \<open>
  C8. A \<^verbatim>\<open>FlightParameters\<close> element without a time-window attribute makes the
  extraction of the flight parameters return \<^verbatim>\<open>NPNT_INV_FPARAMS\<close>. The code passes the
  result of \<^verbatim>\<open>mxmlElementGetAttr\<close> to the conversion, which calls \<^verbatim>\<open>strlen\<close> on it
  before any test: with \<^verbatim>\<open>flightEndTime\<close> absent and every other attribute present,
  the extraction dereferences a null pointer and returns no status.
\<close>

theorem missing_end_time_faults:
  "npnt_populate_flight_params sample_extern sample_codes
     (sample_handle\<lparr>parsed_permart := Some sample_tree_e\<rparr>) = Inl NullDeref"
  by (simp add: npnt_populate_flight_params_def sample_defs mxml_defs npnt_get_attr_def
      npnt_ist_date_time_to_unix_time_def)

text \<open>
  C9. When the \<^verbatim>\<open>Coordinates\<close> element is absent or has no \<^verbatim>\<open>Coordinate\<close>
  element among its children, the fence extraction returns a count that is not positive,
  and \<^verbatim>\<open>npnt_set_permart\<close>, once the artefact is loaded and verified, returns
  \<^verbatim>\<open>NPNT_BAD_FENCE\<close> with a vertex count of zero.
\<close>

theorem empty_fence_rejected:
  assumes "raw_permart h = None"
    and "set_permart_load ext c h permart permart_length base64_encoded = Inr (Inr h2)"
    and "npnt_verify_permart ext c lee0 h2 = Inr v" and "0 \<le> v"
    and "coordinate_nodes (parsed_permart h2) = []"
  shows "(\<exists>r. npnt_alloc_and_get_fence_points ext h2 = Inr r \<and> r \<le> 0) \<and>
    npnt_set_permart ext c lee0 (Some h) permart permart_length base64_encoded =
      Inr (NPNT_BAD_FENCE c, Some (h2\<lparr>fence := (fence h2)\<lparr>nverts := 0\<rparr>\<rparr>))"
proof -
  from fence_points_none [OF assms(5), of ext]
  obtain r where r: "npnt_alloc_and_get_fence_points ext h2 = Inr r" "r \<le> 0" by blast
  from set_permart_fence_stage [OF assms(1-4) r(1)] r show ?thesis by auto
qed

theorem empty_fence_rejected_witness:
  "coordinate_nodes (parsed_permart (sample_parsed sample_doc_b sample_tree_b)) = [] \<and>
   npnt_set_permart sample_extern sample_codes sample_buf (Some sample_handle)
     (sample_doc_b @ [NUL]) 162 0 =
     Inr (NPNT_BAD_FENCE sample_codes,
       Some ((sample_parsed sample_doc_b sample_tree_b)
         \<lparr>fence := (fence (sample_parsed sample_doc_b sample_tree_b))\<lparr>nverts := 0\<rparr>\<rparr>))"
  using empty_fence_rejected
    [OF sample_handle_fresh sample_b_loaded sample_b_verified _ sample_b_coordinates,
      of sample_buf]
    sample_b_coordinates
  by simp

text \<open>
  C10. The vertex count comes back through an \<^verbatim>\<open>int8_t\<close>. With \<open>N\<close>
  \<^verbatim>\<open>Coordinate\<close> elements, each with both attributes, and the allocations succeeding,
  the fence extraction returns \<open>N\<close> reduced modulo \<open>2^8\<close> and read as a signed 8-bit
  number. For \<open>1 \<le> N \<le> 127\<close> that is \<open>N\<close>, and it is the count
  \<^verbatim>\<open>npnt_set_permart\<close> stores; for \<open>N \<ge> 128\<close> it differs from \<open>N\<close>, and
  \<^verbatim>\<open>npnt_set_permart\<close> returns \<^verbatim>\<open>NPNT_BAD_FENCE\<close> when it is not positive and stores
  it otherwise. The stored count stays until the call returns, unless the flight
  parameters fail. \<open>N\<close> is below \<open>2^16\<close>, the range of the \<^verbatim>\<open>uint16_t\<close> counter.
\<close>

theorem fence_count_int8:
  assumes "raw_permart h = None"
    and "set_permart_load ext c h permart permart_length base64_encoded = Inr (Inr h2)"
    and "npnt_verify_permart ext c lee0 h2 = Inr v" and "0 \<le> v"
    and "N = length (coordinate_nodes (parsed_permart h2))" and "N < 65536"
    and "list_all has_lat_lon (coordinate_nodes (parsed_permart h2))"
    and "malloc_ok ext (N * 4)"
  shows "npnt_alloc_and_get_fence_points ext h2 = Inr (i8 (int N)) \<and>
    (1 \<le> N \<and> N \<le> 127 \<longrightarrow> i8 (int N) = int N) \<and>
    (128 \<le> N \<longrightarrow> i8 (int N) \<noteq> int N) \<and>
    npnt_set_permart ext c lee0 (Some h) permart permart_length base64_encoded =
      (if i8 (int N) \<le> 0
       then Inr (NPNT_BAD_FENCE c, Some (h2\<lparr>fence := (fence h2)\<lparr>nverts := 0\<rparr>\<rparr>))
       else map_sum id (map_prod id Some)
              (set_permart_params ext c (h2\<lparr>fence := (fence h2)\<lparr>nverts := i8 (int N)\<rparr>\<rparr>))) \<and>
    (\<forall>r h'. 0 < i8 (int N) \<and>
        npnt_set_permart ext c lee0 (Some h) permart permart_length base64_encoded
          = Inr (r, Some h') \<longrightarrow>
        nverts (fence h') = i8 (int N) \<or> (r = NPNT_INV_FPARAMS c \<and> nverts (fence h') = 0))"
proof -
  have fp: "npnt_alloc_and_get_fence_points ext h2 = Inr (i8 (int N))"
    using assms(5-8) by (rule fence_points_count)
  have stage: "npnt_set_permart ext c lee0 (Some h) permart permart_length base64_encoded =
      (if i8 (int N) \<le> 0
       then Inr (NPNT_BAD_FENCE c, Some (h2\<lparr>fence := (fence h2)\<lparr>nverts := 0\<rparr>\<rparr>))
       else map_sum id (map_prod id Some)
              (set_permart_params ext c (h2\<lparr>fence := (fence h2)\<lparr>nverts := i8 (int N)\<rparr>\<rparr>)))"
    using assms(1-4) fp by (rule set_permart_fence_stage)
  have final: "nverts (fence h') = i8 (int N) \<or> (r = NPNT_INV_FPARAMS c \<and> nverts (fence h') = 0)"
    if pos: "0 < i8 (int N)"
      and res: "npnt_set_permart ext c lee0 (Some h) permart permart_length base64_encoded
        = Inr (r, Some h')"
    for r h'
  proof -
    from stage pos res
    have "map_sum id (map_prod id Some)
        (set_permart_params ext c (h2\<lparr>fence := (fence h2)\<lparr>nverts := i8 (int N)\<rparr>\<rparr>))
      = Inr (r, Some h')" by simp
    then have "set_permart_params ext c (h2\<lparr>fence := (fence h2)\<lparr>nverts := i8 (int N)\<rparr>\<rparr>)
      = Inr (r, h')"
      by (cases "set_permart_params ext c (h2\<lparr>fence := (fence h2)\<lparr>nverts := i8 (int N)\<rparr>\<rparr>)")
        auto
    from set_permart_params_nverts [OF this] show ?thesis by simp
  qed
  from fp stage final i8_small [of N] i8_large [of N] show ?thesis by blast
qed

theorem fence_count_int8_witness:
  "npnt_alloc_and_get_fence_points sample_extern (sample_parsed sample_doc_a sample_tree_a)
     = Inr 1 \<and>
   npnt_set_permart sample_extern sample_codes sample_buf (Some sample_handle)
     (sample_doc_a @ [NUL]) 266 0 =
     Inr (NPNT_INV_BAD_ALT sample_codes,
       Some ((sample_parsed sample_doc_a sample_tree_a)
         \<lparr>fence := (fence (sample_parsed sample_doc_a sample_tree_a))\<lparr>nverts := 1\<rparr>\<rparr>))"
proof -
  have n: "(1::nat) = length (coordinate_nodes
      (parsed_permart (sample_parsed sample_doc_a sample_tree_a)))"
    by (simp add: sample_a_coordinates)
  have attrs: "list_all has_lat_lon
      (coordinate_nodes (parsed_permart (sample_parsed sample_doc_a sample_tree_a)))"
    by (simp add: sample_a_coordinates has_lat_lon_def mxmlElementGetAttr_def)
  have alloc: "malloc_ok sample_extern (1 * 4)" by (simp add: sample_extern_def)
  have i: "i8 (int 1) = 1" by (simp add: i8_def)
  from fence_count_int8
    [OF sample_handle_fresh sample_a_loaded sample_a_verified _ n _ attrs alloc, of sample_buf]
    sample_a_params i
  show ?thesis by simp
qed

end
